theory Spec2Isabelle
  imports Complex_Main
begin

section \<open>Database activity monitor: the poller and the session timer of app.py\<close>

text \<open>
  The class \<open>DatabaseMonitorUI\<close> of \<open>src/app.py\<close> is embedded as a record of the
  attributes its two methods \<open>check_database_activity\<close> and \<open>update_ui\<close> read and
  write, and the methods as functions from the record to the updated record.

  Conventions of the embedding:
  \<^item> A Python float is the real number it denotes, and every float operation rounds
    its exact result to the nearest double, ties to even (\<open>fl\<close> below, 53 significant
    bits). The exponent range is not bounded: the model agrees with IEEE-754
    arithmetic as long as no operation overflows, which holds for clock readings
    in seconds since the epoch, and where an operation underflows the integer
    parts taken at lines 166 and 168 are 0 in both.
  \<^item> \<open>update_ui\<close> reads the clock at most twice (line 143 and line 148); the two
    readings are the parameters \<open>t_start\<close> and \<open>t_now\<close>. The first is consumed only
    when the session is started by that call.
  \<^item> A widget is its displayed text (labels) or the last value handed to
    \<open>setValue\<close> (progress bar, \<open>None\<close> while never set); the setters of the widgets
    return normally.
  \<^item> \<open>notification.notify\<close> either returns or raises: the parameter \<open>notify\<close> of a
    tick is \<open>None\<close> when the call of that tick returns and \<open>Some msg\<close> when it raises
    an exception whose \<open>str\<close> is \<open>msg\<close>. \<open>update_ui\<close> makes at most one such call.
    The list \<open>notifications\<close> holds the notifications whose call returned, oldest
    first.
  \<^item> An exception that leaves \<open>update_ui\<close> is the value \<open>Raise msg s\<close>, with \<open>s\<close> the
    attributes as written up to the raising line; the \<open>except\<close> clause of line 137
    then runs on \<open>s\<close>.
  \<^item> A failure of \<open>pyodbc.connect\<close>, \<open>cursor.execute\<close> or \<open>cursor.fetchall\<close> is the
    value \<open>Failure msg\<close> of the poll outcome, \<open>msg\<close> being \<open>str(e)\<close>; leaving the two
    \<open>with\<close> blocks returns normally.
  \<^item> \<open>logging.error\<close> appends to the list \<open>log_entries\<close>.
\<close>

subsection \<open>Data\<close>

text \<open>A row of the query of lines 116-127; \<open>None\<close> is SQL NULL.\<close>

record row =
  session_id :: int
  program_name :: "string option"
  login_name :: "string option"
  host_name :: "string option"
  last_request_start_time :: real

datatype poll_outcome = Failure string | Fetched "row list"

datatype py_error = IndexError

record monitor =
  session_start :: "real option"
  notification_sent :: bool
  status_label :: string
  program_label :: string
  time_label :: string
  progress_bar :: "int option"
  notifications :: "(string \<times> string) list"
  log_entries :: "string list"

text \<open>How a method ends: it returns, or an exception with the given text leaves it.\<close>

datatype exit = Return monitor | Raise string monitor

fun final :: "exit \<Rightarrow> monitor" where
  "final (Return s) = s"
| "final (Raise msg s) = s"

text \<open>\<open>self.max_duration = 60 * 60\<close>, assigned once in \<open>__init__\<close>.\<close>

definition max_duration :: real where
  "max_duration = 60 * 60"

text \<open>The attributes after \<open>__init__\<close> (lines 19-21) and \<open>setup_ui\<close> (lines 57-63).\<close>

definition init :: monitor where
  "init = \<lparr> session_start = None, notification_sent = False,
            status_label = ''Waiting for database activity...'',
            program_label = ''Program: None'',
            time_label = ''Time Remaining: --:--:--'',
            progress_bar = None, notifications = [], log_entries = [] \<rparr>"

subsection \<open>Double-precision arithmetic\<close>

text \<open>Rounding to the nearest integer, a tie going to the even one.\<close>

definition round_half_even :: "real \<Rightarrow> int" where
  "round_half_even x =
     (let n = \<lfloor>x\<rfloor>; r = x - of_int n
      in if r < 1 / 2 then n else if 1 / 2 < r then n + 1 else if even n then n else n + 1)"

text \<open>The exponent \<open>e\<close> with \<open>2 ^ e \<le> |x| < 2 ^ (e + 1)\<close>, and the spacing of the doubles there.\<close>

definition exponent :: "real \<Rightarrow> int" where
  "exponent x = \<lfloor>log 2 \<bar>x\<bar>\<rfloor>"

definition ulp :: "real \<Rightarrow> real" where
  "ulp x = 2 powi (exponent x - 52)"

text \<open>The double nearest to \<open>x\<close>.\<close>

definition fl :: "real \<Rightarrow> real" where
  "fl x = (if x = 0 then 0 else of_int (round_half_even (x / ulp x)) * ulp x)"

text \<open>The float operations \<open>a - b\<close>, \<open>a / b\<close> and \<open>a * b\<close> of Python.\<close>

definition fsub :: "real \<Rightarrow> real \<Rightarrow> real" where
  "fsub a b = fl (a - b)"

definition fdiv :: "real \<Rightarrow> real \<Rightarrow> real" where
  "fdiv a b = fl (a / b)"

definition fmul :: "real \<Rightarrow> real \<Rightarrow> real" where
  "fmul a b = fl (a * b)"

subsection \<open>Python primitives used by the two methods\<close>

text \<open>Truth value of \<open>self.session_start\<close>: \<open>None\<close> and \<open>0.0\<close> are false.\<close>

fun truthy :: "real option \<Rightarrow> bool" where
  "truthy None = False"
| "truthy (Some t) = (t \<noteq> 0)"

text \<open>\<open>int(x)\<close> on a float truncates towards zero.\<close>

definition py_int :: "real \<Rightarrow> int" where
  "py_int x = (if 0 \<le> x then \<lfloor>x\<rfloor> else \<lceil>x\<rceil>)"

text \<open>\<open>str\<close> of a value that is a string or \<open>None\<close>, as an f-string renders it.\<close>

fun py_str :: "string option \<Rightarrow> string" where
  "py_str None = ''None''"
| "py_str (Some s) = s"

definition digit :: "nat \<Rightarrow> char" where
  "digit d = ''0123456789'' ! d"

fun show_nat :: "nat \<Rightarrow> string" where
  "show_nat n = (if n < 10 then [digit n] else show_nat (n div 10) @ [digit (n mod 10)])"

declare show_nat.simps [simp del]

text \<open>The conversion \<open>%d\<close>.\<close>

definition show_int :: "int \<Rightarrow> string" where
  "show_int i = (if i < 0 then ''-'' @ show_nat (nat (- i)) else show_nat (nat i))"

text \<open>The conversion \<open>%02d\<close> on a value that is not negative.\<close>

definition pad2 :: "nat \<Rightarrow> string" where
  "pad2 n = (if n < 10 then ''0'' @ show_nat n else show_nat n)"

text \<open>
  \<open>str(timedelta(seconds=n))\<close> for an integer \<open>n\<close>. The constructor normalises to
  days and seconds of the day and raises \<open>OverflowError\<close> when the days exceed
  999999999 in magnitude (\<open>Inl\<close> with the text of the exception, which for days
  beyond a C int is that of the conversion). The string is \<open>H:MM:SS\<close>, preceded
  by the days when there are any.
\<close>

definition str_timedelta :: "int \<Rightarrow> string + string" where
  "str_timedelta n =
     (let days = n div 86400; secs = nat (n mod 86400);
          mm = secs div 60; ss = secs mod 60;
          hh = mm div 60; mm = mm mod 60;
          s = show_nat hh @ '':'' @ pad2 mm @ '':'' @ pad2 ss
      in if days < - 999999999 \<or> 999999999 < days
         then Inl (if - 2147483648 \<le> days \<and> days \<le> 2147483647
                   then ''days='' @ show_int days @ ''; must have magnitude <= 999999999''
                   else ''Python int too large to convert to C int'')
         else Inr (if days \<noteq> 0
                   then show_int days @ '' day'' @ (if \<bar>days\<bar> \<noteq> 1 then ''s'' else [])
                        @ '', '' @ s
                   else s))"

subsection \<open>The methods\<close>

text \<open>
  \<open>send_notification\<close> (lines 104-110): one call of \<open>notification.notify\<close>, which
  returns or raises as \<open>notify\<close> says.
\<close>

definition send_notification :: "monitor \<Rightarrow> string \<Rightarrow> string \<Rightarrow> string option \<Rightarrow> exit" where
  "send_notification s title message notify =
     (case notify of
        None \<Rightarrow> Return (s\<lparr>notifications := notifications s @ [(title, message)]\<rparr>)
      | Some msg \<Rightarrow> Raise msg s)"

definition time_up :: "string \<times> string" where
  "time_up = (''Database Monitor'', ''Time's up! 60 minutes completed.'')"

definition five_minutes :: "string \<times> string" where
  "five_minutes = (''Database Monitor'', ''5 minutes remaining!'')"

definition time_up_status :: string where
  "time_up_status = ''Time's up! Session completed.''"

text \<open>
  \<open>update_ui\<close> (lines 141-169). The statements after a call that raises are not
  executed: line 156 when the call of line 155 raises, lines 162-169 when the call
  of line 161 raises, line 169 when \<open>timedelta\<close> raises at line 168.
\<close>

definition update_ui ::
  "monitor \<Rightarrow> bool \<Rightarrow> string option \<Rightarrow> real \<Rightarrow> real \<Rightarrow> string option \<Rightarrow> exit" where
  "update_ui s is_active program t_start t_now notify =
     (let s1 = (if is_active \<and> \<not> truthy (session_start s)
                then s\<lparr>session_start := Some t_start,
                       status_label := ''Activity detected! Monitoring...'',
                       program_label := ''Program: '' @ py_str program\<rparr>
                else s)
      in if truthy (session_start s1)
         then (let current_time = t_now;
                   elapsed = fsub current_time (the (session_start s1));
                   remaining = fsub max_duration elapsed
               in if remaining \<le> 0
                  then (case send_notification
                               (s1\<lparr>session_start := None, status_label := time_up_status\<rparr>)
                               (fst time_up) (snd time_up) notify of
                          Raise msg s2 \<Rightarrow> Raise msg s2
                        | Return s2 \<Rightarrow> Return (s2\<lparr>notification_sent := False\<rparr>))
                  else (case (if remaining \<le> 300 \<and> \<not> notification_sent s1
                              then (case send_notification s1
                                           (fst five_minutes) (snd five_minutes) notify of
                                      Raise msg s2 \<Rightarrow> Raise msg s2
                                    | Return s2 \<Rightarrow> Return (s2\<lparr>notification_sent := True\<rparr>))
                              else Return s1) of
                          Raise msg s2 \<Rightarrow> Raise msg s2
                        | Return s2 \<Rightarrow>
                            (let progress = fmul (fdiv elapsed max_duration) 100;
                                 s3 = s2\<lparr>progress_bar := Some (py_int progress)\<rparr>
                             in case str_timedelta (py_int remaining) of
                                  Inl msg \<Rightarrow> Raise msg s3
                                | Inr time_remaining \<Rightarrow>
                                    Return (s3\<lparr>time_label :=
                                                  ''Time Remaining: '' @ time_remaining\<rparr>))))
         else Return s1)"

text \<open>\<open>rows[0]\<close>: raises \<open>IndexError\<close> on the empty list.\<close>

definition first_row :: "row list \<Rightarrow> py_error + row" where
  "first_row rows = (case rows of [] \<Rightarrow> Inl IndexError | r # _ \<Rightarrow> Inr r)"

text \<open>
  Lines 132-133: \<open>is_active = len(rows) > 0\<close> and
  \<open>program = rows[0].program_name if rows else "Unknown"\<close>.
\<close>

definition poll_report :: "row list \<Rightarrow> py_error + bool \<times> string option" where
  "poll_report rows =
     (let is_active = length rows > 0
      in if rows \<noteq> []
         then (case first_row rows of
                 Inl e \<Rightarrow> Inl e
               | Inr r \<Rightarrow> Inr (is_active, program_name r))
         else Inr (is_active, Some ''Unknown''))"

text \<open>The handler of lines 137-139, for an exception whose \<open>str\<close> is \<open>msg\<close>.\<close>

definition on_exception :: "monitor \<Rightarrow> string \<Rightarrow> monitor" where
  "on_exception s msg =
     s\<lparr>log_entries := log_entries s @ [''Connection error: '' @ msg],
       status_label := ''Error: '' @ msg\<rparr>"

text \<open>The \<open>try\<close> statement around a call of \<open>update_ui\<close>: what the tick leaves.\<close>

fun handled :: "exit \<Rightarrow> monitor" where
  "handled (Return s) = s"
| "handled (Raise msg s) = on_exception s msg"

text \<open>
  \<open>check_database_activity\<close> (lines 112-139), one tick of the monitor timer. Every
  exception raised inside the \<open>try\<close> block goes to the handler: the failures of the
  connection and of the query, which come before any attribute is written, and
  the exceptions that leave \<open>update_ui\<close>, after the attributes it has written.
\<close>

definition check_database_activity ::
  "monitor \<Rightarrow> poll_outcome \<Rightarrow> real \<Rightarrow> real \<Rightarrow> string option \<Rightarrow> monitor" where
  "check_database_activity s outcome t_start t_now notify =
     (case outcome of
        Failure msg \<Rightarrow> on_exception s msg
      | Fetched rows \<Rightarrow>
          (case poll_report rows of
             Inl e \<Rightarrow> on_exception s ''list index out of range''
           | Inr (is_active, program) \<Rightarrow>
               handled (update_ui s is_active program t_start t_now notify)))"

text \<open>
  A run of ticks, each with its poll outcome, its two clock readings and what its
  call of \<open>notification.notify\<close> does.
\<close>

type_synonym tick = "poll_outcome \<times> real \<times> real \<times> string option"

fun run :: "monitor \<Rightarrow> tick list \<Rightarrow> monitor" where
  "run s [] = s"
| "run s ((outcome, t_start, t_now, notify) # ticks) =
     run (check_database_activity s outcome t_start t_now notify) ticks"

text \<open>The states the monitor can be in: after \<open>__init__\<close>, and after any tick.\<close>

inductive reachable :: "monitor \<Rightarrow> bool" where
  reachable_init: "reachable init"
| reachable_tick:
    "reachable s \<Longrightarrow> reachable (check_database_activity s outcome t_start t_now notify)"

subsection \<open>Vocabulary of the statements\<close>

text \<open>
  The variables \<open>elapsed\<close> and \<open>remaining\<close> of lines 149-150, for a session started
  at \<open>t0\<close> and the clock reading \<open>t_now\<close>.
\<close>

definition elapsed_at :: "real \<Rightarrow> real \<Rightarrow> real" where
  "elapsed_at t0 t_now = fsub t_now t0"

definition remaining_at :: "real \<Rightarrow> real \<Rightarrow> real" where
  "remaining_at t0 t_now = fsub max_duration (elapsed_at t0 t_now)"

text \<open>The value of line 165.\<close>

definition progress_at :: "real \<Rightarrow> real \<Rightarrow> real" where
  "progress_at t0 t_now = fmul (fdiv (elapsed_at t0 t_now) max_duration) 100"

text \<open>The notifications sent during a run of ticks, oldest first.\<close>

definition sent_during :: "monitor \<Rightarrow> tick list \<Rightarrow> (string \<times> string) list" where
  "sent_during s ticks = drop (length (notifications s)) (notifications (run s ticks))"

definition warnings :: "monitor \<Rightarrow> nat" where
  "warnings s = count_list (notifications s) five_minutes"

definition completions :: "monitor \<Rightarrow> nat" where
  "completions s = count_list (notifications s) time_up"

definition flag_count :: "monitor \<Rightarrow> nat" where
  "flag_count s = (if notification_sent s then 1 else 0)"

text \<open>
  A tick starts a session when its poll reports activity while no session is in
  progress (the test of line 142); a run of ticks none of which starts a session.
\<close>

definition starts_session :: "monitor \<Rightarrow> poll_outcome \<Rightarrow> bool" where
  "starts_session s outcome =
     (\<not> truthy (session_start s)
      \<and> (case outcome of Failure msg \<Rightarrow> False | Fetched rows \<Rightarrow> rows \<noteq> []))"

fun no_start :: "monitor \<Rightarrow> tick list \<Rightarrow> bool" where
  "no_start s [] = True"
| "no_start s ((outcome, t_start, t_now, notify) # ticks) =
     (\<not> starts_session s outcome
      \<and> no_start (check_database_activity s outcome t_start t_now notify) ticks)"

subsection \<open>Concrete rows and states used in the examples\<close>

definition row0 :: row where
  "row0 = \<lparr> session_id = 52, program_name = Some ''sqlcmd'', login_name = Some ''sa'',
            host_name = Some ''HOST'', last_request_start_time = 90 \<rparr>"

definition row1 :: row where
  "row1 = \<lparr> session_id = 53, program_name = Some ''ssms'', login_name = None,
            host_name = None, last_request_start_time = 95 \<rparr>"

text \<open>
  A session started at the clock reading 100 by the program of \<open>row0\<close>; the same
  session two seconds before its end, after its warning was sent; and the monitor
  after the tick that ends that session when the call of \<open>notification.notify\<close> of
  that tick raises.
\<close>

definition started :: monitor where
  "started = check_database_activity init (Fetched [row0]) 100 100 None"

definition late :: monitor where
  "late = check_database_activity started (Fetched [row0]) 3698 3698 None"

definition stuck :: monitor where
  "stuck = check_database_activity late (Fetched [row1]) 3700 3700 (Some ''notify failed'')"

section \<open>Properties\<close>

subsection \<open>Rounding to the nearest double\<close>

lemma ulp_pos: "0 < ulp x"
  by (simp add: ulp_def)

lemma exponent_eq:
  assumes "2 powi e \<le> \<bar>x\<bar>" and "\<bar>x\<bar> < 2 powi (e + 1)"
  shows "exponent x = e"
proof -
  have pos: "0 < \<bar>x\<bar>"
    using assms(1) zero_less_power_int [of "2::real" e] by linarith
  have a: "(2::real) powr of_int e = 2 powi e"
    by (rule powr_real_of_int') simp_all
  have b: "(2::real) powr (of_int e + 1) = 2 powi (e + 1)"
    using powr_real_of_int' [of "2::real" "e + 1"] by simp
  show ?thesis
    unfolding exponent_def using assms pos by (simp add: floor_log_eq_powr_iff a b)
qed

lemma exponent_bounds:
  assumes "x \<noteq> 0"
  shows "2 powi (exponent x) \<le> \<bar>x\<bar>" and "\<bar>x\<bar> < 2 powi (exponent x + 1)"
proof -
  have pos: "0 < \<bar>x\<bar>" using assms by simp
  have a: "(2::real) powr of_int e = 2 powi e" for e
    by (rule powr_real_of_int') simp_all
  have b: "(2::real) powr (of_int e + 1) = 2 powi (e + 1)" for e
    using powr_real_of_int' [of "2::real" "e + 1"] by simp
  have "\<lfloor>log 2 \<bar>x\<bar>\<rfloor> = exponent x" by (simp add: exponent_def)
  then have "2 powr of_int (exponent x) \<le> \<bar>x\<bar> \<and> \<bar>x\<bar> < 2 powr (of_int (exponent x) + 1)"
    using pos by (simp add: floor_log_eq_powr_iff)
  then show "2 powi (exponent x) \<le> \<bar>x\<bar>" and "\<bar>x\<bar> < 2 powi (exponent x + 1)"
    by (simp_all add: a b)
qed

lemma round_half_even_cases:
  "round_half_even y = \<lfloor>y\<rfloor> \<or> round_half_even y = \<lfloor>y\<rfloor> + 1"
  by (simp add: round_half_even_def Let_def)

lemma round_half_even_ge: "of_int k \<le> y \<Longrightarrow> k \<le> round_half_even y"
proof -
  assume "of_int k \<le> y"
  then have "k \<le> \<lfloor>y\<rfloor>" by (simp add: le_floor_iff)
  with round_half_even_cases [of y] show ?thesis by linarith
qed

lemma round_half_even_le: "y \<le> of_int k \<Longrightarrow> round_half_even y \<le> k"
proof -
  assume h: "y \<le> of_int k"
  have f: "\<lfloor>y\<rfloor> \<le> k" using floor_mono [OF h] by simp
  show ?thesis
  proof (cases "\<lfloor>y\<rfloor> = k")
    case True
    then have "y - of_int \<lfloor>y\<rfloor> \<le> 0" using h by simp
    then show ?thesis using True by (simp add: round_half_even_def Let_def)
  next
    case False
    with f have "\<lfloor>y\<rfloor> + 1 \<le> k" by simp
    with round_half_even_cases [of y] show ?thesis by linarith
  qed
qed

lemma round_half_even_error: "\<bar>of_int (round_half_even y) - y\<bar> \<le> 1 / 2"
proof -
  have "of_int \<lfloor>y\<rfloor> \<le> y" "y < of_int \<lfloor>y\<rfloor> + 1" by linarith+
  then show ?thesis by (auto simp: round_half_even_def Let_def)
qed

lemma round_half_even_of_int [simp]: "round_half_even (of_int k) = k"
  by (simp add: round_half_even_def)

lemma fl_0 [simp]: "fl 0 = 0"
  by (simp add: fl_def)

lemma fl_eval:
  assumes "2 powi e \<le> \<bar>x\<bar>" and "\<bar>x\<bar> < 2 powi (e + 1)"
  shows "fl x = of_int (round_half_even (x / 2 powi (e - 52))) * 2 powi (e - 52)"
proof -
  have "0 < \<bar>x\<bar>" using assms(1) zero_less_power_int [of "2::real" e] by linarith
  then have "x \<noteq> 0" by simp
  then show ?thesis by (simp add: fl_def ulp_def exponent_eq [OF assms])
qed

lemma scaled_bounds:
  assumes "0 < x"
  shows "2 ^ 52 \<le> x / ulp x" and "x / ulp x < 2 ^ 53"
proof -
  have x: "x \<noteq> 0" "\<bar>x\<bar> = x" using assms by simp_all
  have u: "ulp x * 2 ^ 52 = 2 powi (exponent x)"
    using power_int_add [of "2::real" "exponent x - 52" 52] by (simp add: ulp_def)
  have v: "ulp x * 2 ^ 53 = 2 powi (exponent x + 1)"
    using power_int_add [of "2::real" "exponent x - 52" 53] by (simp add: ulp_def add.commute)
  from exponent_bounds [OF x(1)]
  have b: "2 powi (exponent x) \<le> x" "x < 2 powi (exponent x + 1)"
    by (simp_all add: x(2))
  have lo: "ulp x * 2 ^ 52 \<le> x" unfolding u by (rule b(1))
  have hi: "x < ulp x * 2 ^ 53" unfolding v by (rule b(2))
  show "2 ^ 52 \<le> x / ulp x"
    using lo ulp_pos [of x] by (simp only: pos_le_divide_eq mult.commute)
  show "x / ulp x < 2 ^ 53"
    using hi ulp_pos [of x] by (simp only: pos_divide_less_eq mult.commute)
qed

lemma fl_pos: "0 < x \<Longrightarrow> 0 < fl x"
proof -
  assume x: "0 < x"
  have "(2::real) ^ 52 = of_int (2 ^ 52)" by simp
  with scaled_bounds(1) [OF x] have "of_int (2 ^ 52) \<le> x / ulp x" by simp
  then have "(2::int) ^ 52 \<le> round_half_even (x / ulp x)" by (rule round_half_even_ge)
  then have "0 < round_half_even (x / ulp x)" by simp
  then show ?thesis using x ulp_pos [of x] by (simp add: fl_def)
qed

lemma ulp_minus [simp]: "ulp (- x) = ulp x"
  by (simp add: ulp_def exponent_def)

lemma round_half_even_minus: "round_half_even (- y) = - round_half_even y"
proof (cases "y = of_int \<lfloor>y\<rfloor>")
  case True
  then obtain k where "y = of_int k" ..
  then show ?thesis using round_half_even_of_int [of "- k"] by simp
next
  case False
  have lo: "of_int \<lfloor>y\<rfloor> < y" using False of_int_floor_le [of y] by linarith
  have hi: "y < of_int \<lfloor>y\<rfloor> + 1" by linarith
  have c: "\<lceil>y\<rceil> = \<lfloor>y\<rfloor> + 1"
    by (rule ceiling_unique) (use lo hi in simp_all)
  have f: "\<lfloor>- y\<rfloor> = - \<lfloor>y\<rfloor> - 1" using c by (simp add: ceiling_def)
  show ?thesis
    unfolding round_half_even_def Let_def f using lo by (auto simp: field_simps)
qed

lemma fl_minus: "fl (- x) = - fl x"
  by (simp add: fl_def round_half_even_minus)

lemma fl_neg: "x < 0 \<Longrightarrow> fl x < 0"
  using fl_pos [of "- x"] by (simp add: fl_minus)

lemma fl_le_0_iff: "fl x \<le> 0 \<longleftrightarrow> x \<le> 0"
proof (cases "0 < x")
  case True
  with fl_pos [of x] show ?thesis by simp
next
  case False
  then have "x = 0 \<or> x < 0" by linarith
  with fl_neg [of x] False show ?thesis by auto
qed

lemma fl_nonneg: "0 \<le> x \<Longrightarrow> 0 \<le> fl x"
  using fl_pos [of x] by (cases "x = 0") auto

lemma fl_error: "\<bar>fl x - x\<bar> \<le> ulp x / 2"
proof (cases "x = 0")
  case True
  then show ?thesis using ulp_pos [of x] by simp
next
  case False
  let ?k = "round_half_even (x / ulp x)"
  have "fl x - x = (of_int ?k - x / ulp x) * ulp x"
    using False ulp_pos [of x] by (simp add: fl_def field_simps)
  then have "\<bar>fl x - x\<bar> = \<bar>of_int ?k - x / ulp x\<bar> * ulp x"
    using ulp_pos [of x] by (simp add: abs_mult)
  also have "\<dots> \<le> (1 / 2) * ulp x"
    using round_half_even_error [of "x / ulp x"] ulp_pos [of x]
    by (intro mult_right_mono) simp_all
  finally show ?thesis by simp
qed

lemma fl_le_grid:
  assumes "x \<noteq> 0" and "x \<le> of_int m * ulp x"
  shows "fl x \<le> of_int m * ulp x"
proof -
  have "x / ulp x \<le> of_int m"
    using assms(2) ulp_pos [of x] by (simp add: pos_divide_le_eq)
  then have "round_half_even (x / ulp x) \<le> m" by (rule round_half_even_le)
  then have "of_int (round_half_even (x / ulp x)) * ulp x \<le> of_int m * ulp x"
    using ulp_pos [of x] by (intro mult_right_mono) simp_all
  then show ?thesis using assms(1) by (simp add: fl_def)
qed

lemma fl_ge_grid:
  assumes "x \<noteq> 0" and "of_int m * ulp x \<le> x"
  shows "of_int m * ulp x \<le> fl x"
proof -
  have "of_int m \<le> x / ulp x"
    using assms(2) ulp_pos [of x] by (simp add: pos_le_divide_eq)
  then have "m \<le> round_half_even (x / ulp x)" by (rule round_half_even_ge)
  then have "of_int m * ulp x \<le> of_int (round_half_even (x / ulp x)) * ulp x"
    using ulp_pos [of x] by (intro mult_right_mono) simp_all
  then show ?thesis using assms(1) by (simp add: fl_def)
qed

lemma ulp_scale:
  "ulp x * 2 ^ 52 = 2 powi (exponent x)" "ulp x * 2 ^ 53 = 2 powi (exponent x + 1)"
  using power_int_add [of "2::real" "exponent x - 52" 52]
    power_int_add [of "2::real" "exponent x - 52" 53]
  by (simp_all add: ulp_def add.commute)

lemma fl_range:
  assumes "0 < x"
  shows "2 powi (exponent x) \<le> fl x" and "fl x \<le> 2 powi (exponent x + 1)"
proof -
  have x: "x \<noteq> 0" "\<bar>x\<bar> = x" using assms by simp_all
  have lo: "of_int (2 ^ 52) * ulp x \<le> x"
    using exponent_bounds(1) [OF x(1)] ulp_scale(1) [of x] by (simp add: x(2) mult.commute)
  have hi: "x \<le> of_int (2 ^ 53) * ulp x"
    using exponent_bounds(2) [OF x(1)] ulp_scale(2) [of x] by (simp add: x(2) mult.commute)
  from fl_ge_grid [OF x(1) lo] show "2 powi (exponent x) \<le> fl x"
    using ulp_scale(1) [of x] by (simp add: mult.commute)
  from fl_le_grid [OF x(1) hi] show "fl x \<le> 2 powi (exponent x + 1)"
    using ulp_scale(2) [of x] by (simp add: mult.commute)
qed

lemma fl_of_int:
  assumes "\<bar>n\<bar> < 2 ^ 53"
  shows "fl (of_int n) = of_int n"
proof (cases "n = 0")
  case True
  then show ?thesis by simp
next
  case False
  let ?x = "of_int n :: real"
  let ?e = "exponent ?x"
  have x: "?x \<noteq> 0" using False by simp
  have "\<bar>?x\<bar> < 2 ^ 53"
    using assms by (metis of_int_abs of_int_less_numeral_power_cancel_iff)
  then have "2 powi ?e < (2::real) powi 53"
    using exponent_bounds(1) [OF x] by simp
  then have e: "?e \<le> 52"
    using power_int_increasing [of 53 ?e "2::real"] by (cases "?e \<le> 52") auto
  define k where "k = nat (52 - ?e)"
  have ek: "?e - 52 = - int k" using e by (simp add: k_def)
  have u: "ulp ?x = inverse (2 ^ k)"
    by (simp add: ulp_def ek power_int_minus)
  have "?x / ulp ?x = of_int (n * 2 ^ k)" by (simp add: u divide_inverse)
  then have "round_half_even (?x / ulp ?x) = n * 2 ^ k"
    using round_half_even_of_int [of "n * 2 ^ k"] by simp
  then show ?thesis using x by (simp add: fl_def u)
qed

lemma fl_numeral [simp]: "numeral w < (2::int) ^ 53 \<Longrightarrow> fl (numeral w) = numeral w"
  using fl_of_int [of "numeral w"] by simp

lemma exponent_less:
  assumes "x \<noteq> 0" and "\<bar>x\<bar> < 2 powi j"
  shows "exponent x < j"
proof (rule ccontr)
  assume "\<not> exponent x < j"
  then have "2 powi j \<le> (2::real) powi (exponent x)"
    by (intro power_int_increasing) simp_all
  with exponent_bounds(1) [OF assms(1)] assms(2) show False by linarith
qed

lemma ulp_le:
  assumes "x \<noteq> 0" and "\<bar>x\<bar> < 2 powi j"
  shows "ulp x \<le> 2 powi (j - 53)"
  unfolding ulp_def using exponent_less [OF assms]
  by (intro power_int_increasing) simp_all

text \<open>A rounded value below 3600 is at most the double before 3600.\<close>

lemma fl_below_3600:
  assumes "fl d < 3600"
  shows "fl d \<le> 3600 - 1 / 2 ^ 41"
proof (cases "0 < d")
  case False
  then have "fl d \<le> 0" by (simp add: fl_le_0_iff)
  then show ?thesis by simp
next
  case True
  then have d: "d \<noteq> 0" "\<bar>d\<bar> = d" by simp_all
  consider "exponent d \<le> 10" | "exponent d = 11" | "12 \<le> exponent d" by linarith
  then show ?thesis
  proof cases
    case 1
    then have "2 powi (exponent d + 1) \<le> (2::real) powi 11"
      by (intro power_int_increasing) simp_all
    with fl_range(2) [OF True] have "fl d \<le> 2048" by simp
    then show ?thesis by simp
  next
    case 2
    then have u: "ulp d = 1 / 2 ^ 41" by (simp add: ulp_def inverse_eq_divide)
    let ?k = "round_half_even (d / ulp d)"
    have f: "fl d = of_int ?k / 2 ^ 41" using d(1) by (simp add: fl_def u)
    with assms have "of_int ?k < (3600 * 2 ^ 41 :: real)" by (simp add: field_simps)
    also have "(3600 * 2 ^ 41 :: real) = of_int (3600 * 2 ^ 41)" by simp
    finally have "?k < 3600 * 2 ^ 41" by (simp only: of_int_less_iff)
    then have "?k \<le> 3600 * 2 ^ 41 - 1" by simp
    then have "(of_int ?k :: real) \<le> of_int (3600 * 2 ^ 41 - 1)" by (simp only: of_int_le_iff)
    then show ?thesis by (simp add: f field_simps)
  next
    case 3
    then have "(2::real) powi 12 \<le> 2 powi (exponent d)"
      by (intro power_int_increasing) simp_all
    with fl_range(1) [OF True] assms show ?thesis by simp
  qed
qed

text \<open>The quotient of a double below 3600 by 3600 rounds below 1.\<close>

lemma fl_quotient_below_1:
  assumes "0 < q" and "q \<le> 1 - 1 / 2 ^ 53"
  shows "fl q \<le> 1 - 1 / 2 ^ 53"
proof -
  have q: "q \<noteq> 0" "\<bar>q\<bar> = q" using assms(1) by simp_all
  have "\<bar>q\<bar> < 2 powi 0" using assms(2) q(2) by simp
  from exponent_less [OF q(1) this] consider "exponent q = - 1" | "exponent q \<le> - 2"
    by linarith
  then show ?thesis
  proof cases
    case 1
    then have u: "ulp q = 1 / 2 ^ 53" by (simp add: ulp_def inverse_eq_divide)
    have "q \<le> of_int (2 ^ 53 - 1) * ulp q" using assms(2) by (simp add: u field_simps)
    from fl_le_grid [OF q(1) this] show ?thesis by (simp add: u field_simps)
  next
    case 2
    then have "2 powi (exponent q + 1) \<le> (2::real) powi (- 1)"
      by (intro power_int_increasing) simp_all
    with fl_range(2) [OF assms(1)] have "fl q \<le> 1 / 2" by (simp add: inverse_eq_divide)
    then show ?thesis by simp
  qed
qed

text \<open>A product of at most \<open>100 - 100 / 2 ^ 53\<close> rounds below 100.\<close>

lemma fl_product_below_100:
  assumes "0 \<le> p" and "p \<le> 100 - 100 / 2 ^ 53"
  shows "fl p < 100"
proof (cases "p = 0")
  case True
  then show ?thesis by simp
next
  case False
  have "\<bar>p\<bar> < 2 powi 7" using assms by simp
  from ulp_le [OF False this] have u: "ulp p \<le> 1 / 70368744177664"
    by (simp add: inverse_eq_divide)
  have "fl p - p \<le> ulp p / 2" using fl_error [of p] by linarith
  with u have "fl p \<le> p + 1 / 140737488355328" by linarith
  moreover have "p \<le> 100 - 100 / 9007199254740992" using assms(2) by simp
  ultimately show ?thesis by linarith
qed

text \<open>The progress value of a session whose elapsed time is a double in \<open>[0, 3600)\<close>.\<close>

lemma progress_bounds:
  assumes "0 \<le> fl d" and "fl d < 3600"
  shows "0 \<le> fl (fl (fl d / 3600) * 100)"
    and "fl (fl (fl d / 3600) * 100) < 100"
    and "\<bar>fl (fl (fl d / 3600) * 100) - fl d / 3600 * 100\<bar> < 1"
proof -
  let ?q = "fl d / 3600"
  let ?p = "fl ?q * 100"
  have e: "fl d \<le> 3600 - 1 / 2 ^ 41" using assms(2) by (rule fl_below_3600)
  have q0: "0 \<le> ?q" using assms(1) by simp
  have q1: "?q \<le> 1 - 1 / 2 ^ 53" using e by simp
  have fq0: "0 \<le> fl ?q" using q0 by (rule fl_nonneg)
  have fq1: "fl ?q \<le> 1 - 1 / 2 ^ 53"
  proof (cases "?q = 0")
    case True
    then show ?thesis by simp
  next
    case False
    with q0 have "0 < ?q" by linarith
    then show ?thesis using q1 by (rule fl_quotient_below_1)
  qed
  have p0: "0 \<le> ?p" using fq0 by simp
  have p1: "?p \<le> 100 - 100 / 2 ^ 53" using fq1 by simp
  show "0 \<le> fl ?p" using p0 by (rule fl_nonneg)
  show "fl ?p < 100" using p0 p1 by (rule fl_product_below_100)
  have eq: "\<bar>fl ?q - ?q\<bar> \<le> 1 / 18014398509481984"
  proof (cases "?q = 0")
    case True
    then show ?thesis by simp
  next
    case False
    have "\<bar>?q\<bar> < 2 powi 0" using q0 q1 by simp
    from ulp_le [OF False this] have "ulp ?q \<le> 1 / 9007199254740992"
      by (simp add: inverse_eq_divide)
    with fl_error [of ?q] show ?thesis by linarith
  qed
  have ep: "\<bar>fl ?p - ?p\<bar> \<le> 1 / 140737488355328"
  proof (cases "?p = 0")
    case True
    then show ?thesis by simp
  next
    case False
    have "\<bar>?p\<bar> < 2 powi 7" using p0 p1 by simp
    from ulp_le [OF False this] have "ulp ?p \<le> 1 / 70368744177664"
      by (simp add: inverse_eq_divide)
    with fl_error [of ?p] show ?thesis by linarith
  qed
  have "\<bar>?p - ?q * 100\<bar> \<le> 100 / 18014398509481984" using eq by linarith
  with ep show "\<bar>fl ?p - ?q * 100\<bar> < 1" by linarith
qed

lemma floor_close:
  fixes a b :: real
  assumes "\<bar>a - b\<bar> < 1"
  shows "\<bar>\<lfloor>a\<rfloor> - \<lfloor>b\<rfloor>\<bar> \<le> 1"
proof -
  have "a < b + 1" "b < a + 1" using assms by linarith+
  then have "\<lfloor>a\<rfloor> \<le> \<lfloor>b\<rfloor> + 1" "\<lfloor>b\<rfloor> \<le> \<lfloor>a\<rfloor> + 1" by linarith+
  then show ?thesis by linarith
qed

subsection \<open>Elapsed and remaining time\<close>

lemma remaining_le_0_iff: "remaining_at t0 t_now \<le> 0 \<longleftrightarrow> max_duration \<le> elapsed_at t0 t_now"
  by (simp add: remaining_at_def fsub_def fl_le_0_iff)

lemma remaining_pos: "elapsed_at t0 t_now < max_duration \<Longrightarrow> 0 < remaining_at t0 t_now"
  using remaining_le_0_iff [of t0 t_now] by simp

subsection \<open>Evaluating the formatting functions\<close>

lemma show_nat_small: "n < 10 \<Longrightarrow> show_nat n = [digit n]"
  by (simp add: show_nat.simps)

lemma show_nat_big: "10 \<le> n \<Longrightarrow> show_nat n = show_nat (n div 10) @ [digit (n mod 10)]"
  by (subst show_nat.simps) simp

lemmas format_simps =
  str_timedelta_def show_int_def pad2_def show_nat_small show_nat_big digit_def

lemma str_timedelta_under_an_hour: "str_timedelta 3599 = Inr ''0:59:59''"
  by (simp add: format_simps)

lemma str_timedelta_days: "str_timedelta 200000 = Inr ''2 days, 7:33:20''"
  by (simp add: format_simps)

lemma str_timedelta_negative: "str_timedelta (- 1) = Inr ''-1 day, 23:59:59''"
  by (simp add: format_simps)

lemma str_timedelta_overflow:
  "str_timedelta 100000000000000 = Inl ''days=1157407407; must have magnitude <= 999999999''"
  by (simp add: format_simps)


subsection \<open>The branches of a tick\<close>

lemma poll_report_eq:
  "poll_report rows =
     Inr (rows \<noteq> [], case rows of [] \<Rightarrow> Some ''Unknown'' | r # _ \<Rightarrow> program_name r)"
  by (cases rows) (simp_all add: poll_report_def first_row_def)

lemma tick_fetched:
  "check_database_activity s (Fetched rows) t_start t_now notify =
     handled (update_ui s (rows \<noteq> [])
       (case rows of [] \<Rightarrow> Some ''Unknown'' | r # _ \<Rightarrow> program_name r) t_start t_now notify)"
  by (simp add: check_database_activity_def poll_report_eq)

lemma tick_failure:
  "check_database_activity s (Failure msg) t_start t_now notify = on_exception s msg"
  by (simp add: check_database_activity_def)

lemma update_ui_expired:
  assumes "session_start s = Some t0" and "t0 \<noteq> 0" and "remaining_at t0 t_now \<le> 0"
  shows "update_ui s is_active program t_start t_now notify =
           (case notify of
              None \<Rightarrow>
                Return (s\<lparr>session_start := None, status_label := time_up_status,
                          notifications := notifications s @ [time_up],
                          notification_sent := False\<rparr>)
            | Some msg \<Rightarrow>
                Raise msg (s\<lparr>session_start := None, status_label := time_up_status\<rparr>))"
  using assms
  by (simp add: update_ui_def send_notification_def remaining_at_def elapsed_at_def
        split: option.split)

lemma update_ui_running:
  assumes "session_start s = Some t0" and "t0 \<noteq> 0" and "0 < remaining_at t0 t_now"
  shows "update_ui s is_active program t_start t_now notify =
           (if remaining_at t0 t_now \<le> 300 \<and> \<not> notification_sent s \<and> notify \<noteq> None
            then Raise (the notify) s
            else (let s2 = (if remaining_at t0 t_now \<le> 300 \<and> \<not> notification_sent s
                            then s\<lparr>notifications := notifications s @ [five_minutes],
                                   notification_sent := True\<rparr>
                            else s);
                      s3 = s2\<lparr>progress_bar := Some (py_int (progress_at t0 t_now))\<rparr>
                  in case str_timedelta (py_int (remaining_at t0 t_now)) of
                       Inl msg \<Rightarrow> Raise msg s3
                     | Inr time_remaining \<Rightarrow>
                         Return (s3\<lparr>time_label := ''Time Remaining: '' @ time_remaining\<rparr>)))"
  using assms
  by (auto simp: update_ui_def send_notification_def remaining_at_def elapsed_at_def
        progress_at_def Let_def split: option.split sum.split)


lemma update_ui_start:
  assumes "\<not> truthy (session_start s)"
  shows "update_ui s True program t_start t_now notify =
           update_ui (s\<lparr>session_start := Some t_start,
                        status_label := ''Activity detected! Monitoring...'',
                        program_label := ''Program: '' @ py_str program\<rparr>)
             False program t_start t_now notify"
  using assms by (simp add: update_ui_def)

subsection \<open>The example states\<close>

lemma times_100_100:
  "remaining_at 100 100 = 3600" "progress_at 100 100 = 0"
  by (simp_all add: remaining_at_def progress_at_def elapsed_at_def fsub_def fdiv_def fmul_def
        max_duration_def)

lemma quotient_3598: "fl (3598 / 3600) = 9002195255155025 / 2 ^ 53"
  by (subst fl_eval [where e = "- 1"]) (simp_all add: round_half_even_def)

lemma product_3598: "fl (9002195255155025 / 2 ^ 53 * 100) = 7032965043089863 / 2 ^ 46"
  by (subst fl_eval [where e = 6]) (simp_all add: round_half_even_def)

lemma times_100_3698:
  "remaining_at 100 3698 = 2" "progress_at 100 3698 = 7032965043089863 / 2 ^ 46"
proof -
  have e: "elapsed_at 100 3698 = 3598" by (simp add: elapsed_at_def fsub_def)
  show "remaining_at 100 3698 = 2" by (simp add: remaining_at_def e fsub_def max_duration_def)
  have md: "max_duration = 3600" by (simp add: max_duration_def)
  have q: "fdiv 3598 max_duration = 9002195255155025 / 2 ^ 53"
    unfolding fdiv_def md by (rule quotient_3598)
  show "progress_at 100 3698 = 7032965043089863 / 2 ^ 46"
    unfolding progress_at_def e q fmul_def by (rule product_3598)
qed

lemma times_100_3700: "remaining_at 100 3700 = 0"
  by (simp add: remaining_at_def elapsed_at_def fsub_def max_duration_def)

lemma started_eq:
  "started = init\<lparr>session_start := Some 100,
                  status_label := ''Activity detected! Monitoring...'',
                  program_label := ''Program: sqlcmd'',
                  progress_bar := Some 0,
                  time_label := ''Time Remaining: 1:00:00''\<rparr>"
proof -
  let ?s1 = "init\<lparr>session_start := Some 100,
                   status_label := ''Activity detected! Monitoring...'',
                   program_label := ''Program: '' @ py_str (Some ''sqlcmd'')\<rparr>"
  have "update_ui init True (Some ''sqlcmd'') 100 100 None
          = update_ui ?s1 False (Some ''sqlcmd'') 100 100 None"
    by (rule update_ui_start) (simp add: init_def)
  also have "\<dots> = Return (?s1\<lparr>progress_bar := Some 0,
                              time_label := ''Time Remaining: 1:00:00''\<rparr>)"
    by (subst update_ui_running [where ?t0.0 = 100])
      (simp_all add: times_100_100 py_int_def format_simps)
  finally show ?thesis
    by (simp add: started_def tick_fetched row0_def init_def)
qed

lemma late_eq:
  "late = init\<lparr>session_start := Some 100,
               status_label := ''Activity detected! Monitoring...'',
               program_label := ''Program: sqlcmd'',
               notifications := [(''Database Monitor'', ''5 minutes remaining!'')],
               notification_sent := True,
               progress_bar := Some 99,
               time_label := ''Time Remaining: 0:00:02''\<rparr>"
proof -
  have "update_ui started True (Some ''sqlcmd'') 3698 3698 None
          = Return (started\<lparr>notifications := [five_minutes], notification_sent := True,
                             progress_bar := Some 99,
                             time_label := ''Time Remaining: 0:00:02''\<rparr>)"
    by (subst update_ui_running [where ?t0.0 = 100])
      (simp_all add: started_eq init_def times_100_3698 py_int_def format_simps)
  then show ?thesis
    by (simp add: late_def tick_fetched row0_def started_eq init_def five_minutes_def)
qed

lemma stuck_eq:
  "stuck = init\<lparr>session_start := None,
                status_label := ''Error: notify failed'',
                program_label := ''Program: sqlcmd'',
                notifications := [(''Database Monitor'', ''5 minutes remaining!'')],
                notification_sent := True,
                progress_bar := Some 99,
                time_label := ''Time Remaining: 0:00:02'',
                log_entries := [''Connection error: notify failed'']\<rparr>"
proof -
  have "update_ui late True (Some ''ssms'') 3700 3700 (Some ''notify failed'')
          = Raise ''notify failed''
              (late\<lparr>session_start := None, status_label := time_up_status\<rparr>)"
    by (subst update_ui_expired [where ?t0.0 = 100])
      (simp_all add: late_eq init_def times_100_3700)
  then show ?thesis
    by (simp add: stuck_def tick_fetched row1_def late_eq init_def on_exception_def)
qed

lemma reachable_late: "reachable late"
  unfolding late_def started_def by (intro reachable.intros)

lemma reachable_stuck: "reachable stuck"
  unfolding stuck_def by (intro reachable.intros reachable_late)

subsection \<open>What a tick does to the notifications and to the flag\<close>

lemma five_minutes_neq_time_up: "five_minutes \<noteq> time_up"
  by (simp add: five_minutes_def time_up_def)

lemma handled_frame:
  "notifications (handled x) = notifications (final x)"
  "notification_sent (handled x) = notification_sent (final x)"
  "session_start (handled x) = session_start (final x)"
  "program_label (handled x) = program_label (final x)"
  "progress_bar (handled x) = progress_bar (final x)"
  "time_label (handled x) = time_label (final x)"
  by (cases x; simp add: on_exception_def)+

lemma update_ui_effect:
  "(notifications (final (update_ui s is_active program t_start t_now notify)) = notifications s
      \<and> notification_sent (final (update_ui s is_active program t_start t_now notify))
          = notification_sent s)
   \<or> (\<not> notification_sent s
      \<and> notifications (final (update_ui s is_active program t_start t_now notify))
          = notifications s @ [five_minutes]
      \<and> notification_sent (final (update_ui s is_active program t_start t_now notify)))
   \<or> (notifications (final (update_ui s is_active program t_start t_now notify))
          = notifications s @ [time_up]
      \<and> \<not> notification_sent (final (update_ui s is_active program t_start t_now notify)))"
  by (simp add: update_ui_def send_notification_def Let_def split: option.split sum.split)

lemma count_update_ui:
  "warnings (final (update_ui s is_active program t_start t_now notify))
     + completions s + flag_count s
   \<le> warnings s + completions (final (update_ui s is_active program t_start t_now notify))
     + flag_count (final (update_ui s is_active program t_start t_now notify))"
  using update_ui_effect [of s is_active program t_start t_now notify]
    five_minutes_neq_time_up
  by (auto simp: warnings_def completions_def flag_count_def)

lemma count_tick:
  "warnings (check_database_activity s outcome t_start t_now notify)
     + completions s + flag_count s
   \<le> warnings s + completions (check_database_activity s outcome t_start t_now notify)
     + flag_count (check_database_activity s outcome t_start t_now notify)"
proof (cases outcome)
  case (Failure msg)
  then show ?thesis
    by (simp add: tick_failure on_exception_def warnings_def completions_def flag_count_def)
next
  case (Fetched rows)
  then show ?thesis
    using count_update_ui [of s "rows \<noteq> []" _ t_start t_now notify]
    by (simp add: tick_fetched warnings_def completions_def flag_count_def handled_frame)
qed

lemma count_run:
  "warnings (run s ticks) + completions s + flag_count s
     \<le> warnings s + completions (run s ticks) + flag_count (run s ticks)"
proof (induction ticks arbitrary: s)
  case Nil
  show ?case by simp
next
  case (Cons tk ticks)
  obtain outcome t_start t_now notify where tk: "tk = (outcome, t_start, t_now, notify)"
    by (cases tk) auto
  let ?s1 = "check_database_activity s outcome t_start t_now notify"
  have step: "warnings ?s1 + completions s + flag_count s
                \<le> warnings s + completions ?s1 + flag_count ?s1"
    by (rule count_tick)
  have rest: "warnings (run ?s1 ticks) + completions ?s1 + flag_count ?s1
                \<le> warnings ?s1 + completions (run ?s1 ticks) + flag_count (run ?s1 ticks)"
    by (rule Cons.IH)
  from step rest show ?case by (simp add: tk)
qed

lemma flag_count_le: "flag_count s \<le> 1"
  by (simp add: flag_count_def)

lemma update_ui_appends:
  "\<exists>ns. notifications (final (update_ui s is_active program t_start t_now notify))
          = notifications s @ ns"
  by (simp add: update_ui_def send_notification_def Let_def split: option.split sum.split)

lemma tick_appends:
  "\<exists>ns. notifications (check_database_activity s outcome t_start t_now notify)
          = notifications s @ ns"
  by (cases outcome)
    (simp_all add: tick_fetched tick_failure on_exception_def update_ui_appends handled_frame)

lemma run_appends: "\<exists>ns. notifications (run s ticks) = notifications s @ ns"
proof (induction ticks arbitrary: s)
  case Nil
  show ?case by simp
next
  case (Cons tk ticks)
  obtain outcome t_start t_now notify where tk: "tk = (outcome, t_start, t_now, notify)"
    by (cases tk) auto
  let ?s1 = "check_database_activity s outcome t_start t_now notify"
  obtain ns where ns: "notifications ?s1 = notifications s @ ns"
    using tick_appends by blast
  obtain ms where ms: "notifications (run ?s1 ticks) = notifications ?s1 @ ms"
    using Cons.IH by blast
  from ns ms show ?case by (simp add: tk)
qed

lemma notifications_run:
  "notifications (run s ticks) = notifications s @ sent_during s ticks"
proof -
  obtain ns where "notifications (run s ticks) = notifications s @ ns"
    using run_appends by blast
  then show ?thesis by (simp add: sent_during_def)
qed

lemma warnings_in_session:
  assumes "time_up \<notin> set (sent_during s ticks)"
  shows "count_list (sent_during s ticks) five_minutes \<le> 1"
proof -
  have c: "count_list (sent_during s ticks) time_up = 0"
    using assms by (simp add: count_list_0_iff)
  have w: "warnings (run s ticks) = warnings s + count_list (sent_during s ticks) five_minutes"
    by (simp add: warnings_def notifications_run)
  have k: "completions (run s ticks) = completions s"
    using c by (simp add: completions_def notifications_run)
  from count_run [of s ticks] w k flag_count_le [of "run s ticks"] show ?thesis by simp
qed

subsection \<open>What a tick does to the program label\<close>

lemma program_label_update_ui:
  "truthy (session_start s) \<or> \<not> is_active \<Longrightarrow>
     program_label (final (update_ui s is_active program t_start t_now notify)) = program_label s"
  by (auto simp: update_ui_def send_notification_def Let_def split: option.split sum.split)

lemma program_label_tick:
  assumes "\<not> starts_session s outcome"
  shows "program_label (check_database_activity s outcome t_start t_now notify) = program_label s"
proof (cases outcome)
  case (Failure msg)
  then show ?thesis by (simp add: tick_failure on_exception_def)
next
  case (Fetched rows)
  with assms have "truthy (session_start s) \<or> \<not> rows \<noteq> []"
    by (auto simp: starts_session_def)
  from program_label_update_ui [OF this] Fetched show ?thesis
    by (simp add: tick_fetched handled_frame)
qed

lemma program_label_run:
  "no_start s ticks \<Longrightarrow> program_label (run s ticks) = program_label s"
proof (induction ticks arbitrary: s)
  case Nil
  show ?case by simp
next
  case (Cons tk ticks)
  obtain outcome t_start t_now notify where tk: "tk = (outcome, t_start, t_now, notify)"
    by (cases tk) auto
  let ?s1 = "check_database_activity s outcome t_start t_now notify"
  from Cons.prems have a: "\<not> starts_session s outcome" and b: "no_start ?s1 ticks"
    by (simp_all add: tk)
  have "program_label (run ?s1 ticks) = program_label ?s1" using b by (rule Cons.IH)
  also have "\<dots> = program_label s" using a by (rule program_label_tick)
  finally show ?case by (simp add: tk)
qed

subsection \<open>The label of the remaining time on a tick of the first hour\<close>




subsection \<open>More clock readings of the examples\<close>

lemma quotient_1044: "fl (1044 / 3600) = 5224175567749775 / 2 ^ 54"
  by (subst fl_eval [where e = "- 2"]) (simp_all add: round_half_even_def)

lemma product_1044: "fl (5224175567749775 / 2 ^ 54 * 100) = 8162774324609023 / 2 ^ 48"
  by (subst fl_eval [where e = 4]) (simp_all add: round_half_even_def)

lemma times_100_1144:
  "elapsed_at 100 1144 = 1044" "remaining_at 100 1144 = 2556"
  "progress_at 100 1144 = 8162774324609023 / 2 ^ 48"
proof -
  show e: "elapsed_at 100 1144 = 1044" by (simp add: elapsed_at_def fsub_def)
  show "remaining_at 100 1144 = 2556"
    by (simp add: remaining_at_def e fsub_def max_duration_def)
  have md: "max_duration = 3600" by (simp add: max_duration_def)
  have q: "fdiv 1044 max_duration = 5224175567749775 / 2 ^ 54"
    unfolding fdiv_def md by (rule quotient_1044)
  show "progress_at 100 1144 = 8162774324609023 / 2 ^ 48"
    unfolding progress_at_def e q fmul_def by (rule product_1044)
qed

lemma times_100_3450: "remaining_at 100 3450 = 250"
  by (simp add: remaining_at_def elapsed_at_def fsub_def max_duration_def)

lemma times_100_102: "elapsed_at 100 102 = 2"
  by (simp add: elapsed_at_def fsub_def)

lemmas tick_eval =
  tick_fetched tick_failure on_exception_def update_ui_def send_notification_def
  fsub_def max_duration_def py_int_def format_simps Let_def

subsection \<open>The poller\<close>

text \<open>
  C8. After a query that succeeded, the poller reports activity exactly when the
  result set is not empty, with the program name of the first row, or the string
  \<open>Unknown\<close> when there is no row. The access \<open>rows[0]\<close> is reached on a list that
  is not empty only, so the report is never the \<open>IndexError\<close>; the report is what
  the tick hands to \<open>update_ui\<close>, inside the \<open>try\<close> statement.
\<close>

theorem poll_report_first_row_or_unknown:
  "poll_report rows =
     Inr (rows \<noteq> [], case rows of [] \<Rightarrow> Some ''Unknown'' | r # _ \<Rightarrow> program_name r)
   \<and> check_database_activity s (Fetched rows) t_start t_now notify =
       handled (update_ui s (rows \<noteq> [])
         (case rows of [] \<Rightarrow> Some ''Unknown'' | r # _ \<Rightarrow> program_name r)
         t_start t_now notify)"
  by (simp add: poll_report_eq tick_fetched)

text \<open>
  C4. A tick whose connection or query fails ends in the handler: the tick returns
  a state (nothing propagates), one entry is added to the log, the status label
  shows the error text, and the session start, the one-shot flag, the progress
  value, the other labels and the notifications sent are what they were before
  the tick.
\<close>

theorem poll_failure_keeps_timer:
  "check_database_activity s (Failure msg) t_start t_now notify =
     s\<lparr>log_entries := log_entries s @ [''Connection error: '' @ msg],
       status_label := ''Error: '' @ msg\<rparr>
   \<and> session_start (check_database_activity s (Failure msg) t_start t_now notify)
       = session_start s
   \<and> notification_sent (check_database_activity s (Failure msg) t_start t_now notify)
       = notification_sent s
   \<and> progress_bar (check_database_activity s (Failure msg) t_start t_now notify)
       = progress_bar s
   \<and> time_label (check_database_activity s (Failure msg) t_start t_now notify) = time_label s
   \<and> program_label (check_database_activity s (Failure msg) t_start t_now notify)
       = program_label s
   \<and> notifications (check_database_activity s (Failure msg) t_start t_now notify)
       = notifications s"
  by (simp add: check_database_activity_def on_exception_def)

subsection \<open>The session timer: single ticks\<close>

text \<open>
  In the statements below a session is in progress in the state \<open>s\<close> when
  \<open>session_start s = Some t0\<close> with \<open>t0 \<noteq> 0\<close>: this is the test of line 147, which
  takes the timestamp \<open>0.0\<close> for false, as it takes \<open>None\<close>. The time elapsed at the
  clock reading \<open>t_now\<close> is \<open>elapsed_at t0 t_now\<close>, the time remaining
  \<open>remaining_at t0 t_now\<close>, both as lines 149-150 compute them.
\<close>




text \<open>
  C2 (as amended). On a tick of a session in progress with the time remaining
  above 0, the warning \<open>5 minutes remaining!\<close> is sent exactly when the time
  remaining is at most 300 seconds, the one-shot flag is unset and the call of
  line 161 returns; the flag is set after the tick exactly when it was set before
  or the warning was sent. So no warning is sent above 300 seconds or with the
  flag set, and a call that raises sends nothing and leaves the flag unset. Among
  the notifications sent during a run of ticks that sends no completion
  notification, that is within one session, there is at most one warning.
\<close>

theorem five_minute_warning_once:
  assumes "session_start s = Some t0" and "t0 \<noteq> 0" and "0 < remaining_at t0 t_now"
  shows "notifications (final (update_ui s is_active program t_start t_now notify))
           = (if remaining_at t0 t_now \<le> 300 \<and> \<not> notification_sent s \<and> notify = None
              then notifications s @ [(''Database Monitor'', ''5 minutes remaining!'')]
              else notifications s)
         \<and> notification_sent (final (update_ui s is_active program t_start t_now notify))
           = (notification_sent s \<or> (remaining_at t0 t_now \<le> 300 \<and> notify = None))
         \<and> notifications (check_database_activity s (Fetched rows) t_start t_now notify)
           = (if remaining_at t0 t_now \<le> 300 \<and> \<not> notification_sent s \<and> notify = None
              then notifications s @ [(''Database Monitor'', ''5 minutes remaining!'')]
              else notifications s)
         \<and> notification_sent (check_database_activity s (Fetched rows) t_start t_now notify)
           = (notification_sent s \<or> (remaining_at t0 t_now \<le> 300 \<and> notify = None))
         \<and> ((''Database Monitor'', ''Time's up! 60 minutes completed.'')
                \<notin> set (sent_during s ticks)
              \<longrightarrow> count_list (sent_during s ticks)
                    (''Database Monitor'', ''5 minutes remaining!'') \<le> 1)"
proof -
  have u: "notifications (final (update_ui s a p t_start t_now notify))
             = (if remaining_at t0 t_now \<le> 300 \<and> \<not> notification_sent s \<and> notify = None
                then notifications s @ [(''Database Monitor'', ''5 minutes remaining!'')]
                else notifications s)
           \<and> notification_sent (final (update_ui s a p t_start t_now notify))
             = (notification_sent s \<or> (remaining_at t0 t_now \<le> 300 \<and> notify = None))" for a p
    by (auto simp: update_ui_running [OF assms] five_minutes_def Let_def split: sum.split)
  have w: "(''Database Monitor'', ''Time's up! 60 minutes completed.'')
             \<notin> set (sent_during s ticks)
           \<longrightarrow> count_list (sent_during s ticks)
                 (''Database Monitor'', ''5 minutes remaining!'') \<le> 1"
    using warnings_in_session [of s ticks] by (simp add: time_up_def five_minutes_def)
  from u w show ?thesis by (simp add: tick_fetched handled_frame)
qed

theorem five_minute_warning_once_witness:
  "session_start started = Some 100 \<and> (100::real) \<noteq> 0 \<and> 0 < remaining_at 100 3450
   \<and> remaining_at 100 3450 \<le> 300 \<and> \<not> notification_sent started
   \<and> notifications (check_database_activity started (Fetched [row0]) 3450 3450 None)
       = [(''Database Monitor'', ''5 minutes remaining!'')]
   \<and> notification_sent (check_database_activity started (Fetched [row0]) 3450 3450 None)
   \<and> sent_during started
        [(Fetched [row0], 3448, 3448, Some ''notify failed''), (Fetched [row0], 3450, 3450, None),
         (Failure ''timeout'', 3452, 3452, None), (Fetched [], 3454, 3454, None)]
       = [(''Database Monitor'', ''5 minutes remaining!'')]
   \<and> (''Database Monitor'', ''Time's up! 60 minutes completed.'')
       \<notin> set (sent_during started
            [(Fetched [row0], 3448, 3448, Some ''notify failed''),
             (Fetched [row0], 3450, 3450, None),
             (Failure ''timeout'', 3452, 3452, None), (Fetched [], 3454, 3454, None)])
   \<and> count_list (sent_during started
        [(Fetched [row0], 3448, 3448, Some ''notify failed''), (Fetched [row0], 3450, 3450, None),
         (Failure ''timeout'', 3452, 3452, None), (Fetched [], 3454, 3454, None)])
        (''Database Monitor'', ''5 minutes remaining!'') \<le> 1"
proof -
  let ?ticks = "[(Fetched [row0], 3448, 3448, Some ''notify failed''),
                 (Fetched [row0], 3450, 3450, None),
                 (Failure ''timeout'', 3452, 3452, None), (Fetched [], 3454, 3454, None)]"
  have s: "session_start started = Some 100" "\<not> notification_sent started"
    "notifications started = []"
    by (simp_all add: started_eq init_def)
  have d: "sent_during started ?ticks = [(''Database Monitor'', ''5 minutes remaining!'')]"
    by (simp add: sent_during_def started_eq init_def tick_eval five_minutes_def)
  from five_minute_warning_once [where s = started and ?t0.0 = 100 and t_now = 3450
      and is_active = True and program = None and t_start = 3450 and notify = None
      and rows = "[row0]" and ticks = ?ticks]
    s d
  show ?thesis by (simp add: times_100_3450)
qed

text \<open>
  The claim C2 as written fails when the call of line 161 raises: the warning is
  due (250 seconds remain, the flag is unset), nothing is sent and line 162 is not
  reached, so the flag is not set.
\<close>

theorem five_minute_warning_counterexample:
  "session_start started = Some 100 \<and> 0 < remaining_at 100 3450
   \<and> remaining_at 100 3450 \<le> 300 \<and> \<not> notification_sent started
   \<and> \<not> notification_sent
          (check_database_activity started (Fetched [row0]) 3450 3450 (Some ''notify failed''))
   \<and> notifications
        (check_database_activity started (Fetched [row0]) 3450 3450 (Some ''notify failed''))
       = []"
  by (simp add: started_eq init_def times_100_3450 tick_eval)

text \<open>
  C3 (as amended). A gap in the detected activity does not end the session: on a
  tick of a session in progress with the time elapsed below \<open>max_duration\<close>,
  \<open>session_start\<close> keeps its value whatever the poller reports, in particular
  when it reports no activity (no row), and when the poll fails.
\<close>

theorem gap_keeps_session:
  assumes "session_start s = Some t0" and "t0 \<noteq> 0" and "elapsed_at t0 t_now < max_duration"
  shows "session_start (final (update_ui s False program t_start t_now notify)) = Some t0
         \<and> session_start (check_database_activity s (Fetched []) t_start t_now notify) = Some t0
         \<and> session_start (check_database_activity s outcome t_start t_now notify) = Some t0"
proof -
  have r: "0 < remaining_at t0 t_now" using assms(3) by (rule remaining_pos)
  have u: "session_start (final (update_ui s a p t_start t_now notify)) = Some t0" for a p
    using assms(1) by (simp add: update_ui_running [OF assms(1,2) r] Let_def split: sum.split)
  show ?thesis
    by (cases outcome)
      (simp_all add: u tick_fetched tick_failure on_exception_def assms(1) handled_frame)
qed

theorem gap_keeps_session_witness:
  "session_start started = Some 100 \<and> (100::real) \<noteq> 0 \<and> elapsed_at 100 102 < max_duration
   \<and> session_start (check_database_activity started (Fetched []) 102 102 None) = Some 100"
  using gap_keeps_session [where s = started and ?t0.0 = 100 and t_now = 102
      and program = "Some ''Unknown''" and t_start = 102 and outcome = "Fetched []"
      and notify = None]
  by (simp add: started_eq init_def times_100_102 max_duration_def)

text \<open>
  The claim C3 as written fails: the session \<open>started\<close> is in progress at the clock
  reading 102, two seconds after its start, and the tick that reports no activity
  leaves it in progress.
\<close>

theorem gap_ends_session_counterexample:
  "session_start started = Some 100 \<and> elapsed_at 100 102 < max_duration
   \<and> session_start (check_database_activity started (Fetched []) 102 102 None) \<noteq> None"
  by (simp add: started_eq init_def times_100_102 tick_eval)

text \<open>
  C5 (as amended). On a tick of a session in progress with the time elapsed in
  \<open>[0, 3600)\<close>, unless the call of the warning raises on that tick, the value handed
  to the progress bar is the integer part of the value of line 165, which is the
  double-precision product of the double-precision quotient \<open>elapsed / 3600\<close> by
  100. It is at least 0 and below 100, and it is the floor of the exact
  \<open>elapsed / 3600 * 100\<close> or differs from it by one.
\<close>

theorem progress_value:
  assumes "session_start s = Some t0" and "t0 \<noteq> 0"
    and "0 \<le> elapsed_at t0 t_now" and "elapsed_at t0 t_now < 3600"
    and "notify = None \<or> notification_sent s \<or> 300 < remaining_at t0 t_now"
  shows "progress_bar (final (update_ui s is_active program t_start t_now notify))
           = Some \<lfloor>progress_at t0 t_now\<rfloor>
         \<and> progress_bar (check_database_activity s (Fetched rows) t_start t_now notify)
           = Some \<lfloor>progress_at t0 t_now\<rfloor>
         \<and> progress_at t0 t_now = fl (fl (elapsed_at t0 t_now / 3600) * 100)
         \<and> 0 \<le> \<lfloor>progress_at t0 t_now\<rfloor> \<and> \<lfloor>progress_at t0 t_now\<rfloor> < 100
         \<and> \<bar>\<lfloor>progress_at t0 t_now\<rfloor> - \<lfloor>elapsed_at t0 t_now / 3600 * 100\<rfloor>\<bar> \<le> 1"
proof -
  have e: "elapsed_at t0 t_now = fl (t_now - t0)" by (simp add: elapsed_at_def fsub_def)
  have p: "progress_at t0 t_now = fl (fl (elapsed_at t0 t_now / 3600) * 100)"
    by (simp add: progress_at_def fdiv_def fmul_def max_duration_def)
  have b: "0 \<le> progress_at t0 t_now" "progress_at t0 t_now < 100"
    "\<bar>progress_at t0 t_now - elapsed_at t0 t_now / 3600 * 100\<bar> < 1"
    using progress_bounds [of "t_now - t0"] assms(3,4) unfolding p e by simp_all
  have r: "0 < remaining_at t0 t_now"
    using assms(4) by (intro remaining_pos) (simp add: max_duration_def)
  have "progress_bar (final (update_ui s a q t_start t_now notify))
          = Some (py_int (progress_at t0 t_now))" for a q
    using assms(5) by (auto simp: update_ui_running [OF assms(1,2) r] Let_def split: sum.split)
  moreover have "py_int (progress_at t0 t_now) = \<lfloor>progress_at t0 t_now\<rfloor>"
    using b(1) by (simp add: py_int_def)
  moreover have "0 \<le> \<lfloor>progress_at t0 t_now\<rfloor>" using b(1) by simp
  moreover have "\<lfloor>progress_at t0 t_now\<rfloor> < 100" using b(2) by (simp add: floor_less_iff)
  moreover have "\<bar>\<lfloor>progress_at t0 t_now\<rfloor> - \<lfloor>elapsed_at t0 t_now / 3600 * 100\<rfloor>\<bar> \<le> 1"
    using b(3) by (rule floor_close)
  ultimately show ?thesis using p by (simp add: tick_fetched handled_frame)
qed

theorem progress_value_witness:
  "session_start started = Some 100 \<and> (100::real) \<noteq> 0
   \<and> 0 \<le> elapsed_at 100 3698 \<and> elapsed_at 100 3698 < 3600
   \<and> progress_bar (check_database_activity started (Fetched [row0]) 3698 3698 None) = Some 99
   \<and> \<lfloor>elapsed_at 100 3698 / 3600 * 100\<rfloor> = 99"
proof -
  have e: "elapsed_at 100 3698 = 3598" by (simp add: elapsed_at_def fsub_def)
  have s: "session_start started = Some 100" by (simp add: started_eq init_def)
  from progress_value [where s = started and ?t0.0 = 100 and t_now = 3698 and is_active = True
      and program = None and t_start = 3698 and rows = "[row0]" and notify = None] s
  show ?thesis by (simp add: e times_100_3698)
qed

text \<open>
  The claim C5 as written fails at the elapsed time 1044.0: the exact value of
  \<open>elapsed / 3600 * 100\<close> is 29, the quotient rounds to the double below 0.29, the
  product to the double below 29, and the progress bar is handed 28.
\<close>

theorem progress_value_counterexample:
  "session_start started = Some 100 \<and> elapsed_at 100 1144 = 1044
   \<and> progress_bar (check_database_activity started (Fetched [row0]) 1144 1144 None) = Some 28
   \<and> \<lfloor>(1044::real) / 3600 * 100\<rfloor> = 29"
proof -
  have r: "0 < remaining_at 100 1144" by (simp add: times_100_1144)
  have s: "session_start started = Some 100" by (simp add: started_eq init_def)
  have "progress_bar (final (update_ui started True (Some ''sqlcmd'') 1144 1144 None))
          = Some 28"
    by (simp add: update_ui_running [OF s _ r] times_100_1144 py_int_def Let_def
          split: sum.split)
  then show ?thesis
    by (simp add: s times_100_1144 tick_fetched handled_frame row0_def)
qed



text \<open>
  C9. On the tick that ends a session (time remaining at most 0), \<open>update_ui\<close>
  returns before line 164, or is left by the exception of line 155: the progress
  value and the remaining-time label keep the values they had before the tick.
\<close>

theorem expiry_keeps_display:
  assumes "session_start s = Some t0" and "t0 \<noteq> 0" and "remaining_at t0 t_now \<le> 0"
  shows "progress_bar (final (update_ui s is_active program t_start t_now notify))
           = progress_bar s
         \<and> time_label (final (update_ui s is_active program t_start t_now notify)) = time_label s
         \<and> progress_bar (check_database_activity s outcome t_start t_now notify) = progress_bar s
         \<and> time_label (check_database_activity s outcome t_start t_now notify) = time_label s"
proof -
  have u: "progress_bar (final (update_ui s a p t_start t_now notify)) = progress_bar s
         \<and> time_label (final (update_ui s a p t_start t_now notify)) = time_label s" for a p
    by (cases notify) (simp_all add: update_ui_expired [OF assms])
  show ?thesis
    by (cases outcome) (simp_all add: u tick_fetched tick_failure on_exception_def handled_frame)
qed

theorem expiry_keeps_display_witness:
  "session_start late = Some 100 \<and> (100::real) \<noteq> 0 \<and> remaining_at 100 3700 \<le> 0
   \<and> progress_bar late = Some 99 \<and> time_label late = ''Time Remaining: 0:00:02''
   \<and> progress_bar (check_database_activity late (Fetched [row1]) 3700 3700 None) = Some 99
   \<and> time_label (check_database_activity late (Fetched [row1]) 3700 3700 None)
       = ''Time Remaining: 0:00:02''"
  using expiry_keeps_display [where s = late and ?t0.0 = 100 and t_now = 3700
      and is_active = True and program = None and t_start = 3700
      and outcome = "Fetched [row1]" and notify = None]
  by (simp add: late_eq init_def times_100_3700)

text \<open>
  C10. The program label is written only by a tick that starts a session. A call
  of \<open>update_ui\<close> with a session in progress, or with no activity reported, leaves
  the label as it was, whatever program is reported; so does every tick that does
  not start a session, also when its poll fails; and so does every run of such
  ticks, through the end of the session and the idle ticks after it.
\<close>

theorem program_label_frozen:
  "(truthy (session_start s) \<or> \<not> is_active
      \<longrightarrow> program_label (final (update_ui s is_active program t_start t_now notify))
          = program_label s)
   \<and> (\<not> starts_session s outcome
      \<longrightarrow> program_label (check_database_activity s outcome t_start t_now notify)
          = program_label s)
   \<and> (no_start s ticks \<longrightarrow> program_label (run s ticks) = program_label s)"
  using program_label_update_ui [of s is_active program t_start t_now notify]
    program_label_tick [of s outcome t_start t_now notify] program_label_run [of s ticks]
  by blast

theorem program_label_frozen_witness:
  "truthy (session_start started) \<and> \<not> starts_session started (Fetched [row1])
   \<and> program_name row1 = Some ''ssms''
   \<and> program_label started = ''Program: sqlcmd''
   \<and> program_label (check_database_activity started (Fetched [row1]) 200 200 None)
       = ''Program: sqlcmd''
   \<and> no_start started
        [(Fetched [row1], 200, 200, None), (Failure ''timeout'', 202, 202, None),
         (Fetched [row1], 3700, 3700, None), (Fetched [], 3702, 3702, None),
         (Failure ''timeout'', 3704, 3704, None)]
   \<and> session_start (run started
        [(Fetched [row1], 200, 200, None), (Failure ''timeout'', 202, 202, None),
         (Fetched [row1], 3700, 3700, None), (Fetched [], 3702, 3702, None),
         (Failure ''timeout'', 3704, 3704, None)]) = None
   \<and> program_label (run started
        [(Fetched [row1], 200, 200, None), (Failure ''timeout'', 202, 202, None),
         (Fetched [row1], 3700, 3700, None), (Fetched [], 3702, 3702, None),
         (Failure ''timeout'', 3704, 3704, None)]) = ''Program: sqlcmd''"
proof -
  let ?ticks = "[(Fetched [row1], 200, 200, None), (Failure ''timeout'', 202, 202, None),
                 (Fetched [row1], 3700, 3700, None), (Fetched [], 3702, 3702, None),
                 (Failure ''timeout'', 3704, 3704, None)]"
  have a: "truthy (session_start started)" "\<not> starts_session started (Fetched [row1])"
    "program_label started = ''Program: sqlcmd''"
    by (simp_all add: started_eq init_def starts_session_def)
  have n: "no_start started ?ticks"
    by (simp add: starts_session_def started_eq init_def tick_eval)
  have e: "session_start (run started ?ticks) = None"
    by (simp add: started_eq init_def tick_eval)
  from program_label_frozen [where s = started and is_active = True and program = None
      and t_start = 200 and t_now = 200 and notify = None and outcome = "Fetched [row1]"
      and ticks = ?ticks] a n e
  show ?thesis by (simp add: row1_def)
qed

subsection \<open>The session timer: reachable states\<close>

text \<open>
  C6. The claim is that in every state the monitor can reach the one-shot flag is
  false when \<open>session_start\<close> is \<open>None\<close>. The monitor reaches a state where it is
  true: a session starts at the clock reading 100, its warning is sent at 3698,
  and on the tick at 3700 that ends it the call of line 155 raises, so that
  line 153 has cleared \<open>session_start\<close> and line 156 is not reached. The next
  session, started at 4000, then reaches its last two seconds without a warning.
\<close>

theorem idle_flag_stuck:
  "run init [(Fetched [row0], 100, 100, None), (Fetched [row0], 3698, 3698, None),
             (Fetched [row1], 3700, 3700, Some ''notify failed'')] = stuck
   \<and> reachable stuck \<and> session_start stuck = None \<and> notification_sent stuck
   \<and> session_start (run stuck [(Fetched [row0], 4000, 4000, None),
                                (Fetched [row0], 7598, 7598, None)]) = Some 4000
   \<and> remaining_at 4000 7598 = 2
   \<and> notifications (run stuck [(Fetched [row0], 4000, 4000, None),
                                (Fetched [row0], 7598, 7598, None)])
       = [(''Database Monitor'', ''5 minutes remaining!'')]
   \<and> notifications stuck = [(''Database Monitor'', ''5 minutes remaining!'')]"
proof -
  have a: "run init [(Fetched [row0], 100, 100, None), (Fetched [row0], 3698, 3698, None),
                     (Fetched [row1], 3700, 3700, Some ''notify failed'')] = stuck"
    by (simp add: stuck_def late_def started_def)
  have b: "session_start stuck = None" "notification_sent stuck"
    "notifications stuck = [(''Database Monitor'', ''5 minutes remaining!'')]"
    by (simp_all add: stuck_eq init_def)
  have c: "remaining_at 4000 7598 = 2"
    by (simp add: remaining_at_def elapsed_at_def fsub_def max_duration_def)
  have d: "session_start (run stuck [(Fetched [row0], 4000, 4000, None),
                                     (Fetched [row0], 7598, 7598, None)]) = Some 4000"
    "notifications (run stuck [(Fetched [row0], 4000, 4000, None),
                               (Fetched [row0], 7598, 7598, None)])
       = [(''Database Monitor'', ''5 minutes remaining!'')]"
    by (simp_all add: stuck_eq init_def tick_eval row0_def)
  from a b c d reachable_stuck show ?thesis by simp
qed

end
